theory Spec2Isabelle
  imports Main
begin

section \<open>The ETL script \<^verbatim>\<open>etl.py\<close>\<close>

text \<open>
  \<^verbatim>\<open>etl.py\<close> is a Python script that builds five tables out of two sets of JSON
  records with a dataframe engine (PySpark).  The embedding has three layers:
  \<^item> loading the module: the indentation rule of the Python tokenizer, run on the
    logical lines of the file, and the global names the module binds;
  \<^item> the dataframe expressions of the two extractors, as functions on lists of rows;
  \<^item> the two extractors and \<^verbatim>\<open>main\<close> as written: the write calls they issue,
    in order, and the exception that ends them.
\<close>

subsection \<open>Exceptions\<close>

datatype error =
    IndentationError nat      \<comment> \<open>unexpected indent, with the line number\<close>
  | NameError string          \<comment> \<open>name '...' is not defined\<close>
  | KeyError string
  | TypeError string
  | ValueError string
  | AnalysisException string  \<comment> \<open>the engine cannot resolve a column name\<close>

definition bindE :: "error + 'a \<Rightarrow> ('a \<Rightarrow> error + 'b) \<Rightarrow> error + 'b" where
  "bindE m f = (case m of Inl e \<Rightarrow> Inl e | Inr x \<Rightarrow> f x)"

subsection \<open>Loading the module: indentation\<close>

text \<open>
  A logical line of the file is its line number, the width of its leading blanks and
  whether it is the header of a compound statement (it ends with a colon).  Blank lines,
  comment lines and continuation lines (inside brackets, after a backslash, inside a
  docstring) are not logical lines.  The file has no tab.
\<close>

type_synonym logical_line = "nat \<times> nat \<times> bool"

definition etl_lines :: "logical_line list" where
  "etl_lines =
    [(1, 0, False), (2, 0, False), (3, 0, False), (4, 0, False), (5, 0, False),
     (6, 0, False), (9, 0, False), (10, 0, False), (12, 0, False), (13, 0, False),
     (16, 0, True), (17, 4, False), (21, 4, False),
     (24, 0, True), (25, 4, False), (38, 4, False), (41, 4, False), (44, 4, False),
     (47, 4, False), (51, 4, False), (55, 4, False),
     (59, 0, True), (60, 4, False), (76, 4, False), (79, 4, False), (82, 4, False),
     (85, 4, False), (89, 4, False), (93, 4, False), (94, 4, False), (97, 4, False),
     (98, 4, False), (101, 4, False), (112, 4, False), (116, 4, False),
     (119, 4, False), (120, 4, False), (134, 5, False),
     (137, 0, True), (138, 4, False), (139, 4, False), (140, 4, False),
     (142, 4, False), (143, 4, False),
     (146, 0, True), (147, 4, False)]"

text \<open>
  The tokenizer keeps a stack of indentation widths, \<open>0\<close> at the bottom.  A line wider
  than the top of the stack opens a block, which the grammar allows only after a header;
  a header must be followed by such a line; a narrower line must return to a width that
  is on the stack.  \<open>check_indent stack after_header lines\<close> gives the first line that
  breaks the rule.
\<close>

fun check_indent :: "nat list \<Rightarrow> bool \<Rightarrow> logical_line list \<Rightarrow> error + unit" where
  "check_indent stack after_header [] =
     (if after_header then Inl (IndentationError 0) else Inr ())"
| "check_indent stack after_header ((n, w, header) # ls) =
     (let top = (case stack of [] \<Rightarrow> 0 | t # _ \<Rightarrow> t) in
      if top < w then
        (if after_header then check_indent (w # stack) header ls
         else Inl (IndentationError n))
      else if after_header then Inl (IndentationError n)
      else if w = top \<or> w \<in> set stack then
        check_indent (dropWhile (\<lambda>t. w < t) stack) header ls
      else Inl (IndentationError n))"

definition load_module :: "logical_line list \<Rightarrow> error + unit" where
  "load_module ls = check_indent [0] False ls"

subsection \<open>Loading the module: the names it binds\<close>

text \<open>
  What a global name of the module is bound to: a module, an attribute imported from a
  module, a function the file defines, or the \<^verbatim>\<open>ConfigParser\<close> instance of line 9.
\<close>

datatype pyobj =
    PyModule string
  | Attr string string
  | Def string
  | ConfigParser

text \<open>Lines 1 to 6 (the imports), 9 and the four \<^verbatim>\<open>def\<close>s.\<close>

definition module_globals :: "(string \<times> pyobj) list" where
  "module_globals =
    [(''configparser'', PyModule ''configparser''),
     (''datetime'', Attr ''datetime'' ''datetime''),
     (''os'', PyModule ''os''),
     (''SparkSession'', Attr ''pyspark.sql'' ''SparkSession''),
     (''udf'', Attr ''pyspark.sql.functions'' ''udf''),
     (''col'', Attr ''pyspark.sql.functions'' ''col''),
     (''year'', Attr ''pyspark.sql.functions'' ''year''),
     (''month'', Attr ''pyspark.sql.functions'' ''month''),
     (''dayofmonth'', Attr ''pyspark.sql.functions'' ''dayofmonth''),
     (''hour'', Attr ''pyspark.sql.functions'' ''hour''),
     (''weekofyear'', Attr ''pyspark.sql.functions'' ''weekofyear''),
     (''date_format'', Attr ''pyspark.sql.functions'' ''date_format''),
     (''config'', ConfigParser),
     (''create_spark_session'', Def ''create_spark_session''),
     (''process_song_data'', Def ''process_song_data''),
     (''process_log_data'', Def ''process_log_data''),
     (''main'', Def ''main'')]"

text \<open>
  A name that is not local to the running function is looked up in the globals of the
  module (the built-in names the file uses, \<^verbatim>\<open>str\<close> and \<^verbatim>\<open>int\<close>, are
  not looked up through this function).
\<close>

definition lookup_global :: "string \<Rightarrow> error + pyobj" where
  "lookup_global name =
     (case map_of module_globals name of
        None \<Rightarrow> Inl (NameError name)
      | Some v \<Rightarrow> Inr v)"

subsection \<open>Rows\<close>

text \<open>
  The rows of the JSON catalog files and of the JSON log files, with the columns the
  script reads.  Every column may be null (\<open>None\<close>).  The type \<open>'d\<close> stands for
  the floating-point columns; the embedding only compares such values.
\<close>

record 'd catalog_row =
  song_id :: "string option"
  artist_id :: "string option"
  title :: "string option"
  duration :: "'d option"
  year :: "int option"
  artist_name :: "string option"
  artist_location :: "string option"
  artist_latitude :: "'d option"
  artist_longitude :: "'d option"

record log_row =
  userId :: "string option"
  firstName :: "string option"
  lastName :: "string option"
  gender :: "string option"
  level :: "string option"
  page :: "string option"
  ts :: "int option"
  sessionId :: "int option"
  location :: "string option"
  userAgent :: "string option"
  artist :: "string option"

text \<open>The rows of the songs, artists and users tables are tuples of the selected columns.\<close>

type_synonym 'd song_row =
  "string option \<times> string option \<times> string option \<times> int option \<times> 'd option"

type_synonym 'd artist_row =
  "string option \<times> string option \<times> string option \<times> 'd option \<times> 'd option"

type_synonym user_row =
  "string option \<times> string option \<times> string option \<times> string option \<times> string option"

subsection \<open>Dataframe operations\<close>

text \<open>
  A dataframe is the list of its rows.  \<^verbatim>\<open>distinct()\<close> and
  \<^verbatim>\<open>dropDuplicates()\<close> keep one row of each group of equal rows (here the first).
\<close>

fun distinct_acc :: "'a list \<Rightarrow> 'a list \<Rightarrow> 'a list" where
  "distinct_acc seen [] = []"
| "distinct_acc seen (x # xs) =
     (if x \<in> set seen then distinct_acc seen xs else x # distinct_acc (x # seen) xs)"

definition distinct_rows :: "'a list \<Rightarrow> 'a list" where
  "distinct_rows xs = distinct_acc [] xs"

definition dropDuplicates :: "'a list \<Rightarrow> 'a list" where
  "dropDuplicates xs = distinct_rows xs"

text \<open>Line 44: \<^verbatim>\<open>df.select(["song_id", "title", "artist_id", "year", "duration"])\<close>.\<close>

definition select_songs :: "'d catalog_row list \<Rightarrow> 'd song_row list" where
  "select_songs df = map (\<lambda>r. (song_id r, title r, artist_id r, year r, duration r)) df"

definition songs_table :: "'d catalog_row list \<Rightarrow> 'd song_row list" where
  "songs_table df = distinct_rows (select_songs df)"

text \<open>Lines 51 and 52.\<close>

definition select_artists :: "'d catalog_row list \<Rightarrow> 'd artist_row list" where
  "select_artists df =
     map (\<lambda>r. (artist_id r, artist_name r, artist_location r,
               artist_latitude r, artist_longitude r)) df"

definition artists_table :: "'d catalog_row list \<Rightarrow> 'd artist_row list" where
  "artists_table df = distinct_rows (select_artists df)"

text \<open>
  Line 82: \<^verbatim>\<open>df.where('page="NextSong"')\<close>.  A row whose page is null is dropped,
  as the comparison is null there.
\<close>

definition where_page :: "log_row list \<Rightarrow> log_row list" where
  "where_page df = filter (\<lambda>r. page r = Some ''NextSong'') df"

text \<open>Lines 85 and 86.\<close>

definition select_users :: "log_row list \<Rightarrow> user_row list" where
  "select_users df = map (\<lambda>r. (userId r, firstName r, lastName r, gender r, level r)) df"

definition users_table :: "log_row list \<Rightarrow> user_row list" where
  "users_table df = distinct_rows (select_users df)"

subsection \<open>Calendar dates and times\<close>

text \<open>
  A naive \<^verbatim>\<open>datetime\<close> value of Python: a date of the proleptic Gregorian calendar
  and a time of day.
\<close>

record datetime =
  dt_year :: int
  dt_month :: int
  dt_day :: int
  dt_hour :: int
  dt_minute :: int
  dt_second :: int
  dt_microsecond :: int

text \<open>
  Days are counted from 1970-01-01 (day \<open>0\<close>).  Both conversions work on years that
  start on 1 March, in cycles of 400 years (146097 days); \<open>div\<close> and \<open>mod\<close> round
  down, so days before 1970 need no special case.
\<close>

definition civil_from_days :: "int \<Rightarrow> int \<times> int \<times> int" where
  "civil_from_days z =
     (let z1 = z + 719468;
          era = z1 div 146097;
          doe = z1 mod 146097;
          yoe = (doe - doe div 1460 + doe div 36524 - doe div 146096) div 365;
          doy = doe - (365 * yoe + yoe div 4 - yoe div 100);
          mp = (5 * doy + 2) div 153;
          d = doy - (153 * mp + 2) div 5 + 1;
          m = (if mp < 10 then mp + 3 else mp - 9);
          y = yoe + era * 400
      in (if m \<le> 2 then y + 1 else y, m, d))"

definition days_from_civil :: "int \<Rightarrow> int \<Rightarrow> int \<Rightarrow> int" where
  "days_from_civil y m d =
     (let y1 = (if m \<le> 2 then y - 1 else y);
          era = y1 div 400;
          yoe = y1 mod 400;
          doy = (153 * (if 2 < m then m - 3 else m + 9) + 2) div 5 + d - 1;
          doe = yoe * 365 + yoe div 4 - yoe div 100 + doy
      in era * 146097 + doe - 719468)"

text \<open>
  \<^verbatim>\<open>datetime.fromtimestamp(t)\<close> gives the local date and time of the process that
  runs it: \<open>tz\<close> is the offset of that local time from UTC, in seconds, at a given
  instant.  The argument of line 97, \<^verbatim>\<open>int(x) / 1000\<close>, is given here by the integer
  \<open>x\<close> of milliseconds, the quotient being taken exactly.  Python supports the years 1
  to 9999 and raises beyond.
\<close>

definition fromtimestamp :: "(int \<Rightarrow> int) \<Rightarrow> int \<Rightarrow> error + datetime" where
  "fromtimestamp tz x =
     (let t = x div 1000;
          us = (x mod 1000) * 1000;
          local = t + tz t;
          sod = local mod 86400
      in case civil_from_days (local div 86400) of (y, m, d) \<Rightarrow>
           if y < 1 \<or> 9999 < y then Inl (ValueError ''year is out of range'')
           else Inr \<lparr>dt_year = y, dt_month = m, dt_day = d,
                     dt_hour = sod div 3600, dt_minute = sod mod 3600 div 60,
                     dt_second = sod mod 60, dt_microsecond = us\<rparr>)"

text \<open>Decimal text: \<^verbatim>\<open>str\<close> of an integer, and the zero-padded fields of a date.\<close>

definition digit :: "nat \<Rightarrow> char" where
  "digit n = ''0123456789'' ! (n mod 10)"

fun str_nat :: "nat \<Rightarrow> string" where
  "str_nat n = (if n < 10 then [digit n] else str_nat (n div 10) @ [digit n])"

declare str_nat.simps [simp del]

definition str_int :: "int \<Rightarrow> string" where
  "str_int i = (if i < 0 then CHR ''-'' # str_nat (nat (- i)) else str_nat (nat i))"

definition zfill :: "nat \<Rightarrow> string \<Rightarrow> string" where
  "zfill w s = replicate (w - length s) CHR ''0'' @ s"

text \<open>
  \<^verbatim>\<open>str\<close> of a \<^verbatim>\<open>datetime\<close>: \<^verbatim>\<open>YYYY-MM-DD HH:MM:SS\<close>, followed by the six
  digits of the microseconds when they are not zero.
\<close>

definition str_datetime :: "datetime \<Rightarrow> string" where
  "str_datetime dt =
     zfill 4 (str_int (dt_year dt)) @ ''-'' @ zfill 2 (str_int (dt_month dt)) @ ''-'' @
     zfill 2 (str_int (dt_day dt)) @ '' '' @ zfill 2 (str_int (dt_hour dt)) @ '':'' @
     zfill 2 (str_int (dt_minute dt)) @ '':'' @ zfill 2 (str_int (dt_second dt)) @
     (if dt_microsecond dt = 0 then []
      else ''.'' @ zfill 6 (str_int (dt_microsecond dt)))"

text \<open>
  Line 93: \<^verbatim>\<open>str(int(int(x)/1000))\<close>; \<^verbatim>\<open>int\<close> of the quotient rounds towards
  zero, and \<^verbatim>\<open>int(None)\<close> raises.
\<close>

definition get_timestamp :: "int option \<Rightarrow> error + string" where
  "get_timestamp x =
     (case x of
        None \<Rightarrow> Inl (TypeError ''int() argument'')
      | Some i \<Rightarrow> Inr (str_int (if 0 \<le> i then i div 1000 else - ((- i) div 1000))))"

text \<open>
  Line 97: \<^verbatim>\<open>str(datetime.fromtimestamp(int(x) / 1000))\<close>.  The column holds the text
  \<open>str_datetime\<close> of the value; the embedding keeps the value itself, from which the
  engine's date functions below read their fields.
\<close>

definition get_datetime :: "(int \<Rightarrow> int) \<Rightarrow> int option \<Rightarrow> error + datetime" where
  "get_datetime tz x =
     (case x of
        None \<Rightarrow> Inl (TypeError ''int() argument'')
      | Some i \<Rightarrow> fromtimestamp tz i)"

text \<open>
  The date functions of \<^verbatim>\<open>pyspark.sql.functions\<close>.  \<^verbatim>\<open>weekofyear\<close> is the ISO
  8601 week number (weeks start on Monday, week 1 holds the first Thursday of the year);
  \<^verbatim>\<open>dayofweek\<close> numbers the days from 1, Sunday, to 7, Saturday.
\<close>

definition iso_weeks_in_year :: "int \<Rightarrow> int" where
  "iso_weeks_in_year y =
     (let p = (\<lambda>y. (y + y div 4 - y div 100 + y div 400) mod 7)
      in if p y = 4 \<or> p (y - 1) = 3 then 53 else 52)"

definition weekofyear :: "datetime \<Rightarrow> int" where
  "weekofyear dt =
     (let days = days_from_civil (dt_year dt) (dt_month dt) (dt_day dt);
          doy = days - days_from_civil (dt_year dt) 1 1 + 1;
          wd = (days + 3) mod 7 + 1;
          w = (doy - wd + 10) div 7
      in if w < 1 then iso_weeks_in_year (dt_year dt - 1)
         else if iso_weeks_in_year (dt_year dt) < w then 1
         else w)"

definition dayofweek :: "datetime \<Rightarrow> int" where
  "dayofweek dt =
     (days_from_civil (dt_year dt) (dt_month dt) (dt_day dt) + 4) mod 7 + 1"

definition sql_function :: "string \<Rightarrow> (datetime \<Rightarrow> int) option" where
  "sql_function name =
     (if name = ''hour'' then Some dt_hour
      else if name = ''dayofmonth'' then Some dt_day
      else if name = ''weekofyear'' then Some weekofyear
      else if name = ''month'' then Some dt_month
      else if name = ''year'' then Some dt_year
      else if name = ''dayofweek'' then Some dayofweek
      else None)"

text \<open>Calling what a name is bound to on the date-time column.\<close>

definition date_column :: "pyobj \<Rightarrow> error + (datetime \<Rightarrow> int)" where
  "date_column f =
     (case f of
        Attr m name \<Rightarrow>
          (if m = ''pyspark.sql.functions'' then
             (case sql_function name of
                Some g \<Rightarrow> Inr g
              | None \<Rightarrow> Inl (TypeError name))
           else Inl (TypeError name))
      | _ \<Rightarrow> Inl (TypeError ''not callable on a column''))"

subsection \<open>The log rows with their derived columns\<close>

text \<open>
  Lines 94 and 98 add the columns \<^verbatim>\<open>timestamp\<close> and \<^verbatim>\<open>datetime\<close> to the
  filtered log rows.  A user-defined function that raises on one row fails the job that
  evaluates the column.
\<close>

record log_row_dt = log_row +
  timestamp :: string
  datetime :: datetime

definition withColumns :: "log_row \<Rightarrow> string \<Rightarrow> datetime \<Rightarrow> log_row_dt" where
  "withColumns r t d =
     \<lparr>userId = userId r, firstName = firstName r, lastName = lastName r,
      gender = gender r, level = level r, page = page r, ts = ts r,
      sessionId = sessionId r, location = location r, userAgent = userAgent r,
      artist = artist r, timestamp = t, datetime = d\<rparr>"

fun mapE :: "('a \<Rightarrow> error + 'b) \<Rightarrow> 'a list \<Rightarrow> error + 'b list" where
  "mapE f [] = Inr []"
| "mapE f (x # xs) = bindE (f x) (\<lambda>y. bindE (mapE f xs) (\<lambda>ys. Inr (y # ys)))"

definition with_timestamps :: "(int \<Rightarrow> int) \<Rightarrow> log_row list \<Rightarrow> error + log_row_dt list" where
  "with_timestamps tz df =
     mapE (\<lambda>r. bindE (get_timestamp (ts r)) (\<lambda>t.
                bindE (get_datetime tz (ts r)) (\<lambda>d. Inr (withColumns r t d)))) df"

subsection \<open>The time table\<close>

text \<open>
  Lines 101 to 109.  The columns are those of the written table, in order:
  \<^verbatim>\<open>datetime\<close>, \<^verbatim>\<open>start_time\<close>, \<^verbatim>\<open>hour\<close>, \<^verbatim>\<open>day\<close>, \<^verbatim>\<open>week\<close>,
  \<^verbatim>\<open>month\<close>, \<^verbatim>\<open>year\<close>, \<^verbatim>\<open>weekday\<close>.  The six functions are what the
  names \<^verbatim>\<open>hour\<close>, \<^verbatim>\<open>dayofmonth\<close>, \<^verbatim>\<open>weekofyear\<close>, \<^verbatim>\<open>month\<close>,
  \<^verbatim>\<open>year\<close> and \<^verbatim>\<open>dayofweek\<close> are bound to when the expression is evaluated.
\<close>

record time_row =
  t_datetime :: datetime
  t_start_time :: datetime
  t_hour :: int
  t_day :: int
  t_week :: int
  t_month :: int
  t_year :: int
  t_weekday :: int

definition time_columns ::
  "(datetime \<Rightarrow> int) \<Rightarrow> (datetime \<Rightarrow> int) \<Rightarrow> (datetime \<Rightarrow> int) \<Rightarrow> (datetime \<Rightarrow> int) \<Rightarrow>
   (datetime \<Rightarrow> int) \<Rightarrow> (datetime \<Rightarrow> int) \<Rightarrow> datetime \<Rightarrow> time_row" where
  "time_columns hour_f day_f week_f month_f year_f weekday_f d =
     \<lparr>t_datetime = d, t_start_time = d, t_hour = hour_f d, t_day = day_f d,
      t_week = week_f d, t_month = month_f d, t_year = year_f d,
      t_weekday = weekday_f d\<rparr>"

definition time_table ::
  "(datetime \<Rightarrow> int) \<Rightarrow> (datetime \<Rightarrow> int) \<Rightarrow> (datetime \<Rightarrow> int) \<Rightarrow> (datetime \<Rightarrow> int) \<Rightarrow>
   (datetime \<Rightarrow> int) \<Rightarrow> (datetime \<Rightarrow> int) \<Rightarrow> log_row_dt list \<Rightarrow> time_row list" where
  "time_table hour_f day_f week_f month_f year_f weekday_f df =
     dropDuplicates
       (map (\<lambda>r. time_columns hour_f day_f week_f month_f year_f weekday_f (datetime r)) df)"

subsection \<open>The songplays table\<close>

text \<open>
  The rows of an inner join of the log rows with the catalog rows on the equality of the
  column \<^verbatim>\<open>artist\<close> of the former and the column \<^verbatim>\<open>artist_name\<close> of the
  latter: one row for each pair of a log row and a catalog row that satisfy the
  condition, a null on either side satisfying no equality.  This is what the engine
  computes for a join whose condition names these two columns; whether the condition
  that line 119 writes names them is \<open>join_condition\<close> below.
\<close>

definition merged_df ::
  "log_row_dt list \<Rightarrow> 'd catalog_row list \<Rightarrow> (log_row_dt \<times> 'd catalog_row) list" where
  "merged_df df song_df =
     concat (map (\<lambda>l. map (\<lambda>s. (l, s))
                        (filter (\<lambda>s. artist l \<noteq> None \<and> artist l = artist_name s) song_df))
                 df)"

record songplay_row =
  sp_start_time :: datetime
  sp_user_id :: "string option"
  sp_level :: "string option"
  sp_song_id :: "string option"
  sp_artist_id :: "string option"
  sp_session_id :: "int option"
  sp_location :: "string option"
  sp_user_agent :: "string option"
  sp_year :: int
  sp_month :: int
  sp_songplay_id :: int

text \<open>Lines 120 to 130, and the identifier that line 131 adds.\<close>

definition songplay ::
  "(datetime \<Rightarrow> int) \<Rightarrow> (datetime \<Rightarrow> int) \<Rightarrow> log_row_dt \<times> 'd catalog_row \<Rightarrow> int \<Rightarrow> songplay_row"
  where
  "songplay year_f month_f m i =
     (case m of (l, s) \<Rightarrow>
        \<lparr>sp_start_time = datetime l, sp_user_id = userId l, sp_level = level l,
         sp_song_id = song_id s, sp_artist_id = artist_id s,
         sp_session_id = sessionId l, sp_location = location l,
         sp_user_agent = userAgent l, sp_year = year_f (datetime l),
         sp_month = month_f (datetime l), sp_songplay_id = i\<rparr>)"

text \<open>
  \<^verbatim>\<open>monotonically_increasing_id()\<close> numbers the rows of a dataframe; \<open>ids\<close> gives the
  identifier of the row at each position, as the engine chooses it.
\<close>

definition songplays_table ::
  "(datetime \<Rightarrow> int) \<Rightarrow> (datetime \<Rightarrow> int) \<Rightarrow> (nat \<Rightarrow> int) \<Rightarrow>
   log_row_dt list \<Rightarrow> 'd catalog_row list \<Rightarrow> songplay_row list" where
  "songplays_table year_f month_f ids df song_df =
     (let merged = merged_df df song_df
      in map (\<lambda>(m, n). songplay year_f month_f m (ids n))
             (zip merged [0 ..< length merged]))"

subsection \<open>The engine session and the write calls\<close>

text \<open>
  The session is what the script gets from the engine: the rows that
  \<^verbatim>\<open>spark.read.json\<close> gives for a path pattern (catalog files and log files), the
  offset of the local time of the processes that run the user-defined functions, and the
  identifiers that \<^verbatim>\<open>monotonically_increasing_id\<close> hands out.  The failures of the
  engine itself (a path that matches nothing or that exists already, a malformed file)
  are not part of the embedding: a read gives rows, a write is recorded.
\<close>

record 'd spark =
  read_songs :: "string \<Rightarrow> 'd catalog_row list"
  read_logs :: "string \<Rightarrow> log_row list"
  local_tz :: "int \<Rightarrow> int"
  row_ids :: "nat \<Rightarrow> int"

datatype 'd table =
    Songs "'d song_row list"
  | Artists "'d artist_row list"
  | Users "user_row list"
  | Time "time_row list"
  | Songplays "songplay_row list"

text \<open>
  A call \<^verbatim>\<open>table.write.parquet(path, mode, partitionBy=...)\<close>: the path, the second
  positional argument when there is one, the partition columns when the keyword is
  given, and the rows.
\<close>

record 'd write_call =
  path :: string
  mode :: "bool option"
  partitionBy :: "string list option"
  table :: "'d table"

text \<open>
  \<^verbatim>\<open>partitionBy==['year','artist_id']\<close> on line 48 compares what the name
  \<^verbatim>\<open>partitionBy\<close> is bound to with a list; no object of \<open>pyobj\<close> is a list.
\<close>

definition eq_list :: "pyobj \<Rightarrow> string list \<Rightarrow> bool" where
  "eq_list v xs = False"

definition id_column :: "'d spark \<Rightarrow> pyobj \<Rightarrow> error + (nat \<Rightarrow> int)" where
  "id_column spark f =
     (case f of
        Attr m name \<Rightarrow>
          (if m = ''pyspark.sql.functions'' \<and> name = ''monotonically_increasing_id''
           then Inr (row_ids spark) else Inl (TypeError name))
      | _ \<Rightarrow> Inl (TypeError ''not callable''))"

subsection \<open>The catalog extractor\<close>

text \<open>
  Lines 24 to 56.  The result is the exception that ended the call, if any, and the
  write calls issued so far.  The arguments of the call on lines 47 and 48 are evaluated
  before the call: the second one looks the name \<^verbatim>\<open>partitionBy\<close> up, and its value
  would be passed as the second positional argument.
\<close>

definition process_song_data ::
  "'d spark \<Rightarrow> string \<Rightarrow> string \<Rightarrow> 'd write_call list \<Rightarrow> error option \<times> 'd write_call list"
  where
  "process_song_data spark input_data output_data out =
     (let song_data = input_data @ ''song_data/*/*/*/'';
          df = read_songs spark song_data;
          songs = songs_table df
      in case lookup_global ''partitionBy'' of
           Inl e \<Rightarrow> (Some e, out)
         | Inr v \<Rightarrow>
             (let out1 = out @
                    [\<lparr>path = output_data @ ''songs/'' @ ''songs.parquet'',
                      mode = Some (eq_list v [''year'', ''artist_id'']),
                      partitionBy = None, table = Songs songs\<rparr>];
                  artists = artists_table df
              in (None, out1 @
                    [\<lparr>path = output_data @ ''artists/'' @ ''artists.parquet'',
                      mode = None, partitionBy = Some [''artist_id''],
                      table = Artists artists\<rparr>])))"

subsection \<open>The event extractor\<close>

text \<open>
  Lines 93 to 109: the names are looked up when the statements run, in the order of the
  text; the user-defined functions run on the rows when the table is written.
\<close>

definition time_table_expr :: "'d spark \<Rightarrow> log_row list \<Rightarrow> error + (log_row_dt list \<times> time_row list)"
  where
  "time_table_expr spark df =
     bindE (lookup_global ''udf'') (\<lambda>_.
     bindE (lookup_global ''udf'') (\<lambda>_.
     bindE (bindE (lookup_global ''hour'') date_column) (\<lambda>hour_f.
     bindE (bindE (lookup_global ''dayofmonth'') date_column) (\<lambda>day_f.
     bindE (bindE (lookup_global ''weekofyear'') date_column) (\<lambda>week_f.
     bindE (bindE (lookup_global ''month'') date_column) (\<lambda>month_f.
     bindE (bindE (lookup_global ''year'') date_column) (\<lambda>year_f.
     bindE (bindE (lookup_global ''dayofweek'') date_column) (\<lambda>weekday_f.
     bindE (with_timestamps (local_tz spark) df) (\<lambda>df1.
     Inr (df1, time_table hour_f day_f week_f month_f year_f weekday_f df1))))))))))"

text \<open>
  Line 119: \<^verbatim>\<open>df.join(song_df, col('df.artist') == col('song_df.artist_name'), 'inner')\<close>.
  The two names of the condition are qualified, and the engine resolves the qualifier of
  a name against the alias of a dataframe of the join.  \<open>join_condition\<close> takes the
  aliases of the two dataframes: the name \<^verbatim>\<open>col\<close> is looked up twice when the
  condition is built, and the join then resolves the two column names.
\<close>

definition resolve_column :: "string option \<Rightarrow> string \<Rightarrow> string \<Rightarrow> error + unit" where
  "resolve_column alias qualifier name =
     (if alias = Some qualifier then Inr ()
      else Inl (AnalysisException (qualifier @ ''.'' @ name)))"

definition join_condition :: "string option \<Rightarrow> string option \<Rightarrow> error + unit" where
  "join_condition df_alias song_df_alias =
     bindE (lookup_global ''col'') (\<lambda>_.
     bindE (lookup_global ''col'') (\<lambda>_.
     bindE (resolve_column df_alias ''df'' ''artist'') (\<lambda>_.
     resolve_column song_df_alias ''song_df'' ''artist_name'')))"

text \<open>Lines 120 to 131, on the rows of the join.\<close>

definition songplays_table_expr ::
  "'d spark \<Rightarrow> log_row_dt list \<Rightarrow> 'd catalog_row list \<Rightarrow> error + songplay_row list" where
  "songplays_table_expr spark df song_df =
     bindE (lookup_global ''col'') (\<lambda>_.
     bindE (bindE (lookup_global ''year'') date_column) (\<lambda>year_f.
     bindE (bindE (lookup_global ''month'') date_column) (\<lambda>month_f.
     bindE (bindE (lookup_global ''monotonically_increasing_id'') (id_column spark)) (\<lambda>ids.
     Inr (songplays_table year_f month_f ids df song_df)))))"

text \<open>
  Lines 59 to 134.  The script gives an alias to columns only (lines 121 to 130), never
  to a dataframe: the two dataframes of the join have no alias.
\<close>

definition process_log_data ::
  "'d spark \<Rightarrow> string \<Rightarrow> string \<Rightarrow> 'd write_call list \<Rightarrow> error option \<times> 'd write_call list"
  where
  "process_log_data spark input_data output_data out =
     (let log_data = input_data @ ''log_data/*/*/*.json'';
          df = where_page (read_logs spark log_data);
          out1 = out @
            [\<lparr>path = output_data @ ''users/'' @ ''users.parquet'', mode = None,
              partitionBy = Some [''userId''], table = Users (users_table df)\<rparr>]
      in case time_table_expr spark df of
           Inl e \<Rightarrow> (Some e, out1)
         | Inr (df1, time_rows) \<Rightarrow>
             (let out2 = out1 @
                    [\<lparr>path = output_data @ ''time/'' @ ''time.parquet'', mode = None,
                      partitionBy = Some [''start_time''], table = Time time_rows\<rparr>];
                  song_df = read_songs spark (input_data @ ''song_data/*/*/*/*.json'')
              in case bindE (join_condition None None)
                        (\<lambda>_. songplays_table_expr spark df1 song_df) of
                   Inl e \<Rightarrow> (Some e, out2)
                 | Inr songplays \<Rightarrow>
                     (None, out2 @
                        [\<lparr>path = output_data @ ''songplays/'' @ ''songplays.parquet'',
                          mode = None, partitionBy = Some [''start_time'', ''user_id''],
                          table = Songplays songplays\<rparr>])))"

subsection \<open>The driver and the script\<close>

text \<open>Lines 137 to 143; an exception in the first extractor ends the run.\<close>

definition main :: "'d spark \<Rightarrow> 'd write_call list \<Rightarrow> error option \<times> 'd write_call list" where
  "main spark out =
     (let input_data = ''s3a://udacity-dend/'';
          output_data = ''s3a://sparkify-data-lake/''
      in case process_song_data spark input_data output_data out of
           (Some e, out1) \<Rightarrow> (Some e, out1)
         | (None, out1) \<Rightarrow> process_log_data spark input_data output_data out1)"

text \<open>
  Lines 9 to 13.  The configuration file is the list of its sections, each with its
  keys and values.  \<^verbatim>\<open>config[name]\<close> is the section of that name, and
  \<^verbatim>\<open>os.environ[key] = value\<close> accepts a string only.
\<close>

datatype cfg_value = Str string | SectionProxy "(string \<times> string) list"

definition config_getitem :: "(string \<times> (string \<times> string) list) list \<Rightarrow> string \<Rightarrow> error + cfg_value"
  where
  "config_getitem cfg name =
     (case map_of cfg name of
        None \<Rightarrow> Inl (KeyError name)
      | Some kvs \<Rightarrow> Inr (SectionProxy kvs))"

definition environ_setitem :: "string \<Rightarrow> cfg_value \<Rightarrow> error + unit" where
  "environ_setitem key v =
     (case v of
        Str s \<Rightarrow> Inr ()
      | SectionProxy kvs \<Rightarrow> Inl (TypeError ''str expected, not SectionProxy''))"

definition load_credentials :: "(string \<times> (string \<times> string) list) list \<Rightarrow> error + unit" where
  "load_credentials cfg =
     bindE (config_getitem cfg ''AWS_ACCESS_KEY_ID'') (\<lambda>v.
     bindE (environ_setitem ''AWS_ACCESS_KEY_ID'' v) (\<lambda>_.
     bindE (config_getitem cfg ''AWS_SECRET_ACCESS_KEY'') (\<lambda>v.
     environ_setitem ''AWS_SECRET_ACCESS_KEY'' v)))"

text \<open>
  Running the script: the file is compiled as a whole before any of its statements
  runs; then the statements of the module run in order, and \<^verbatim>\<open>main\<close> last.
\<close>

definition run_script ::
  "(string \<times> (string \<times> string) list) list \<Rightarrow> 'd spark \<Rightarrow> error option \<times> 'd write_call list"
  where
  "run_script cfg spark =
     (case load_module etl_lines of
        Inl e \<Rightarrow> (Some e, [])
      | Inr _ \<Rightarrow>
          (case load_credentials cfg of
             Inl e \<Rightarrow> (Some e, [])
           | Inr _ \<Rightarrow> main spark []))"

subsection \<open>Example inputs\<close>

text \<open>
  Two time zones with a fixed offset (UTC, and eight hours behind it) and one with
  summer time, a few log and catalog rows, and sessions: one whose reads give no row at
  all, one that reads three log rows and three catalog rows (one of them twice), and a
  second run of the latter.
\<close>

definition utc :: "int \<Rightarrow> int" where
  "utc t = 0"

definition pst :: "int \<Rightarrow> int" where
  "pst t = - 28800"

text \<open>
  A zone with summer time: one hour ahead of UTC before 2018-10-28 01:00 UTC (second
  1540688400), and on UTC from then on.
\<close>

definition london :: "int \<Rightarrow> int" where
  "london t = (if t < 1540688400 then 3600 else 0)"

definition log_free :: log_row where
  "log_free =
     \<lparr>userId = Some ''26'', firstName = Some ''Ryan'', lastName = Some ''Smith'',
      gender = Some ''M'', level = Some ''free'', page = Some ''NextSong'',
      ts = Some 1541440006796, sessionId = Some 583, location = Some ''San Jose'',
      userAgent = Some ''Mozilla'', artist = Some ''Coldplay''\<rparr>"

definition log_paid :: log_row where
  "log_paid = log_free\<lparr>level := Some ''paid'', ts := Some 1541440182796\<rparr>"

definition log_home :: log_row where
  "log_home = log_free\<lparr>page := Some ''Home'', artist := None\<rparr>"

text \<open>The row \<open>log_free\<close> with its derived columns, in UTC.\<close>

definition log_free_dt :: log_row_dt where
  "log_free_dt =
     withColumns log_free ''1541440006''
       \<lparr>dt_year = 2018, dt_month = 11, dt_day = 5, dt_hour = 17, dt_minute = 46,
        dt_second = 46, dt_microsecond = 796000\<rparr>"

definition song_clocks :: "int catalog_row" where
  "song_clocks =
     \<lparr>song_id = Some ''SOCLOCKS'', artist_id = Some ''ARCOLD'', title = Some ''Clocks'',
      duration = Some 307, year = Some 2002, artist_name = Some ''Coldplay'',
      artist_location = Some ''London'', artist_latitude = None,
      artist_longitude = None\<rparr>"

definition song_yellow :: "int catalog_row" where
  "song_yellow =
     song_clocks\<lparr>song_id := Some ''SOYELLOW'', title := Some ''Yellow'',
                 duration := Some 269, year := Some 2000\<rparr>"

definition empty_session :: "int spark" where
  "empty_session =
     \<lparr>read_songs = (\<lambda>p. []), read_logs = (\<lambda>p. []), local_tz = utc, row_ids = int\<rparr>"

definition example_session :: "int spark" where
  "example_session =
     \<lparr>read_songs = (\<lambda>p. [song_clocks, song_yellow, song_clocks]),
      read_logs = (\<lambda>p. [log_free, log_home, log_paid]),
      local_tz = utc, row_ids = int\<rparr>"

text \<open>
  A second run on the same files: the engine delivers the rows in another order and
  hands out other identifiers.
\<close>

definition example_session_rerun :: "int spark" where
  "example_session_rerun =
     \<lparr>read_songs = (\<lambda>p. [song_clocks, song_clocks, song_yellow]),
      read_logs = (\<lambda>p. [log_paid, log_home, log_free]),
      local_tz = utc, row_ids = (\<lambda>n. int n + 8589934592)\<rparr>"

section \<open>Properties\<close>

subsection \<open>Loading and name resolution\<close>

lemma load_module_etl: "load_module etl_lines = Inl (IndentationError 134)"
  by (simp add: load_module_def etl_lines_def)

lemma lookup_partitionBy: "lookup_global ''partitionBy'' = Inl (NameError ''partitionBy'')"
  by (simp add: lookup_global_def module_globals_def)

lemma lookup_dayofweek: "lookup_global ''dayofweek'' = Inl (NameError ''dayofweek'')"
  by (simp add: lookup_global_def module_globals_def)

lemma lookup_monotonically_increasing_id:
  "lookup_global ''monotonically_increasing_id'' =
     Inl (NameError ''monotonically_increasing_id'')"
  by (simp add: lookup_global_def module_globals_def)

lemma bindE_Inl: "bindE (Inl e) f = Inl e"
  by (simp add: bindE_def)

lemma bindE_Inr: "bindE (Inr x) f = f x"
  by (simp add: bindE_def)

lemma lookup_udf: "lookup_global ''udf'' = Inr (Attr ''pyspark.sql.functions'' ''udf'')"
  by (simp add: lookup_global_def module_globals_def)

lemma lookup_col: "lookup_global ''col'' = Inr (Attr ''pyspark.sql.functions'' ''col'')"
  by (simp add: lookup_global_def module_globals_def)

lemma lookup_hour: "bindE (lookup_global ''hour'') date_column = Inr dt_hour"
  by (simp add: lookup_global_def module_globals_def bindE_def date_column_def
      sql_function_def)

lemma lookup_dayofmonth: "bindE (lookup_global ''dayofmonth'') date_column = Inr dt_day"
  by (simp add: lookup_global_def module_globals_def bindE_def date_column_def
      sql_function_def)

lemma lookup_weekofyear: "bindE (lookup_global ''weekofyear'') date_column = Inr weekofyear"
  by (simp add: lookup_global_def module_globals_def bindE_def date_column_def
      sql_function_def)

lemma lookup_month: "bindE (lookup_global ''month'') date_column = Inr dt_month"
  by (simp add: lookup_global_def module_globals_def bindE_def date_column_def
      sql_function_def)

lemma lookup_year: "bindE (lookup_global ''year'') date_column = Inr dt_year"
  by (simp add: lookup_global_def module_globals_def bindE_def date_column_def
      sql_function_def)

subsection \<open>The extractors as written\<close>

text \<open>
  The catalog extractor raises while it evaluates the arguments of its first write call,
  whatever it has read.
\<close>

lemma process_song_data_raises:
  "process_song_data spark input_data output_data out =
     (Some (NameError ''partitionBy''), out)"
  by (simp add: process_song_data_def lookup_partitionBy)

text \<open>The expression of the time table raises at the name of line 108.\<close>

lemma time_table_expr_raises: "time_table_expr spark df = Inl (NameError ''dayofweek'')"
  unfolding time_table_expr_def
  by (simp only: lookup_udf lookup_hour lookup_dayofmonth lookup_weekofyear lookup_month
      lookup_year lookup_dayofweek bindE_Inl bindE_Inr)

text \<open>The event extractor writes the users table and raises before the next write.\<close>

lemma process_log_data_raises:
  "process_log_data spark input_data output_data out =
     (Some (NameError ''dayofweek''),
      out @ [\<lparr>path = output_data @ ''users/'' @ ''users.parquet'', mode = None,
               partitionBy = Some [''userId''],
               table = Users (users_table (where_page
                          (read_logs spark (input_data @ ''log_data/*/*/*.json''))))\<rparr>])"
  by (simp add: process_log_data_def time_table_expr_raises)

lemma songplays_table_expr_raises:
  "songplays_table_expr spark df song_df = Inl (NameError ''monotonically_increasing_id'')"
  unfolding songplays_table_expr_def
  by (simp only: lookup_col lookup_year lookup_month lookup_monotonically_increasing_id
      bindE_Inl bindE_Inr)

lemma main_raises: "main spark out = (Some (NameError ''partitionBy''), out)"
  by (simp add: main_def process_song_data_raises)

lemma run_script_raises: "run_script cfg spark = (Some (IndentationError 134), [])"
  by (simp add: run_script_def load_module_etl)

text \<open>
  Claim C10.  The script never writes a table: compiling the file stops at line 134,
  which is one blank wider than the block it follows, so no statement of the module
  runs.  Apart from that, the names \<^verbatim>\<open>partitionBy\<close>, \<^verbatim>\<open>dayofweek\<close> and
  \<^verbatim>\<open>monotonically_increasing_id\<close> are bound nowhere: the catalog extractor raises
  before its first write call, the event extractor raises after the write call of the
  users table and before those of the time and songplays tables, the expression of the
  songplays table raises too, and \<^verbatim>\<open>main\<close> ends in the catalog extractor with no
  write call issued.
\<close>

theorem C10_script_never_writes:
  "load_module etl_lines = Inl (IndentationError 134) \<and>
   run_script cfg spark = (Some (IndentationError 134), []) \<and>
   lookup_global ''partitionBy'' = Inl (NameError ''partitionBy'') \<and>
   lookup_global ''dayofweek'' = Inl (NameError ''dayofweek'') \<and>
   lookup_global ''monotonically_increasing_id'' =
     Inl (NameError ''monotonically_increasing_id'') \<and>
   process_song_data spark input_data output_data out =
     (Some (NameError ''partitionBy''), out) \<and>
   process_log_data spark input_data output_data out =
     (Some (NameError ''dayofweek''),
      out @ [\<lparr>path = output_data @ ''users/'' @ ''users.parquet'', mode = None,
               partitionBy = Some [''userId''],
               table = Users (users_table (where_page
                          (read_logs spark (input_data @ ''log_data/*/*/*.json''))))\<rparr>]) \<and>
   songplays_table_expr spark df song_df =
     Inl (NameError ''monotonically_increasing_id'') \<and>
   main spark out = (Some (NameError ''partitionBy''), out)"
  by (simp only: load_module_etl run_script_raises lookup_partitionBy lookup_dayofweek
      lookup_monotonically_increasing_id process_song_data_raises process_log_data_raises
      songplays_table_expr_raises main_raises simp_thms)

text \<open>
  Claim C8.  The write call of the songs table is meant to carry the partition columns
  \<^verbatim>\<open>['year', 'artist_id']\<close> (the comment of line 46 says so, and the call of the
  artists table on line 56 passes \<^verbatim>\<open>partitionBy=[...]\<close>), but line 48 writes
  \<^verbatim>\<open>partitionBy==\<close>: a comparison whose left side is an unbound name.  On the
  example session the extractor raises and issues no write call.
\<close>

theorem C8_songs_write_call_not_issued:
  "process_song_data example_session ''s3a://udacity-dend/'' ''s3a://sparkify-data-lake/'' [] =
     (Some (NameError ''partitionBy''), [])"
  by (rule process_song_data_raises)

subsection \<open>Removing duplicates\<close>

lemma set_distinct_acc: "set (distinct_acc seen xs) = set xs - set seen"
  by (induction xs arbitrary: seen) auto

lemma distinct_distinct_acc: "distinct (distinct_acc seen xs)"
  by (induction xs arbitrary: seen) (auto simp: set_distinct_acc)

lemma set_distinct_rows: "set (distinct_rows xs) = set xs"
  by (simp add: distinct_rows_def set_distinct_acc)

lemma distinct_distinct_rows: "distinct (distinct_rows xs)"
  by (simp add: distinct_rows_def distinct_distinct_acc)

subsection \<open>The songs table\<close>

lemma set_songs_table:
  "set (songs_table df) = (\<lambda>c. (song_id c, title c, artist_id c, year c, duration c)) ` set df"
  by (simp add: songs_table_def select_songs_def set_distinct_rows)

lemma songs_example:
  "songs_table [song_clocks, song_yellow, song_clocks] =
     [(Some ''SOCLOCKS'', Some ''Clocks'', Some ''ARCOLD'', Some 2002, Some 307),
      (Some ''SOYELLOW'', Some ''Yellow'', Some ''ARCOLD'', Some 2000, Some 269)]"
  by (simp add: songs_table_def select_songs_def distinct_rows_def song_clocks_def
      song_yellow_def)

text \<open>
  Claim C1.  Every row of the songs table of line 44 is the tuple (song_id, title,
  artist_id, year, duration) of some catalog row that was read, every such tuple is in
  the table, and no two rows of the table are equal.
\<close>

theorem C1_songs_table_rows:
  "(\<forall>row \<in> set (songs_table df).
      \<exists>c \<in> set df. row = (song_id c, title c, artist_id c, year c, duration c)) \<and>
   (\<forall>c \<in> set df.
      (song_id c, title c, artist_id c, year c, duration c) \<in> set (songs_table df)) \<and>
   distinct (songs_table df)"
proof (intro conjI)
  show "\<forall>row \<in> set (songs_table df).
      \<exists>c \<in> set df. row = (song_id c, title c, artist_id c, year c, duration c)"
    by (auto simp: set_songs_table)
  show "\<forall>c \<in> set df.
      (song_id c, title c, artist_id c, year c, duration c) \<in> set (songs_table df)"
    by (auto simp: set_songs_table)
  show "distinct (songs_table df)"
    by (simp add: songs_table_def distinct_distinct_rows)
qed

theorem C1_songs_table_rows_witness:
  "songs_table [song_clocks, song_yellow, song_clocks] =
     [(Some ''SOCLOCKS'', Some ''Clocks'', Some ''ARCOLD'', Some 2002, Some 307),
      (Some ''SOYELLOW'', Some ''Yellow'', Some ''ARCOLD'', Some 2000, Some 269)] \<and>
   (song_id song_yellow, title song_yellow, artist_id song_yellow, year song_yellow,
    duration song_yellow) \<in> set (songs_table [song_clocks, song_yellow, song_clocks]) \<and>
   distinct (songs_table [song_clocks, song_yellow, song_clocks])"
proof -
  note t = C1_songs_table_rows [of "[song_clocks, song_yellow, song_clocks]"]
  from t have "\<forall>c \<in> set [song_clocks, song_yellow, song_clocks].
      (song_id c, title c, artist_id c, year c, duration c)
        \<in> set (songs_table [song_clocks, song_yellow, song_clocks])"
    by (elim conjE)
  then have a: "(song_id song_yellow, title song_yellow, artist_id song_yellow,
      year song_yellow, duration song_yellow)
        \<in> set (songs_table [song_clocks, song_yellow, song_clocks])"
    by simp
  from t have b: "distinct (songs_table [song_clocks, song_yellow, song_clocks])"
    by (elim conjE)
  from songs_example a b show ?thesis
    by (intro conjI)
qed

subsection \<open>The filter and the users table\<close>

lemma where_page_drop:
  "page r \<noteq> Some ''NextSong'' \<Longrightarrow> where_page (xs @ r # ys) = where_page (xs @ ys)"
  by (simp add: where_page_def)

lemma set_where_page: "set (where_page df) = {r \<in> set df. page r = Some ''NextSong''}"
  by (simp add: where_page_def)

lemma set_users_table:
  "set (users_table df) =
     (\<lambda>r. (userId r, firstName r, lastName r, gender r, level r)) ` set df"
  by (simp add: users_table_def select_users_def set_distinct_rows)

lemma users_example:
  "users_table (where_page [log_free, log_home, log_paid]) =
     [(Some ''26'', Some ''Ryan'', Some ''Smith'', Some ''M'', Some ''free''),
      (Some ''26'', Some ''Ryan'', Some ''Smith'', Some ''M'', Some ''paid'')]"
  by (simp add: users_table_def where_page_def select_users_def distinct_rows_def
      log_free_def log_home_def log_paid_def)

text \<open>
  Claim C6.  The users table removes duplicates on the whole tuple (userId, firstName,
  lastName, gender, level): when two play rows of one user carry different levels, the
  table has a row for each of the two, so at least two rows for that userId.
\<close>

theorem C6_users_row_per_level:
  assumes "l1 \<in> set df" and "l2 \<in> set df"
    and "page l1 = Some ''NextSong''" and "page l2 = Some ''NextSong''"
    and "userId l1 = userId l2" and "level l1 \<noteq> level l2"
  shows "(userId l1, firstName l1, lastName l1, gender l1, level l1)
           \<in> set (users_table (where_page df)) \<and>
         (userId l1, firstName l2, lastName l2, gender l2, level l2)
           \<in> set (users_table (where_page df)) \<and>
         distinct (users_table (where_page df)) \<and>
         2 \<le> length (filter (\<lambda>u. fst u = userId l1) (users_table (where_page df)))"
proof -
  let ?T = "users_table (where_page df)"
  let ?u1 = "(userId l1, firstName l1, lastName l1, gender l1, level l1)"
  let ?u2 = "(userId l1, firstName l2, lastName l2, gender l2, level l2)"
  have m1: "?u1 \<in> set ?T"
    using assms(1,3) by (force simp: set_users_table set_where_page)
  have m2: "?u2 \<in> set ?T"
    using assms(2,4,5) by (force simp: set_users_table set_where_page)
  have d: "distinct ?T"
    by (simp add: users_table_def distinct_distinct_rows)
  let ?F = "filter (\<lambda>u. fst u = userId l1) ?T"
  have dF: "distinct ?F" using d by simp
  have "{?u1, ?u2} \<subseteq> set ?F" using m1 m2 by simp
  then have "card {?u1, ?u2} \<le> card (set ?F)"
    by (rule card_mono [OF finite_set])
  moreover have "card {?u1, ?u2} = 2" using assms(6) by simp
  moreover have "card (set ?F) = length ?F" using dF by (rule distinct_card)
  ultimately have "2 \<le> length ?F" by simp
  with m1 m2 d show ?thesis by simp
qed

theorem C6_users_row_per_level_witness:
  "log_free \<in> set [log_free, log_home, log_paid] \<and>
   log_paid \<in> set [log_free, log_home, log_paid] \<and>
   page log_free = Some ''NextSong'' \<and> page log_paid = Some ''NextSong'' \<and>
   userId log_free = userId log_paid \<and> level log_free \<noteq> level log_paid \<and>
   users_table (where_page [log_free, log_home, log_paid]) =
     [(Some ''26'', Some ''Ryan'', Some ''Smith'', Some ''M'', Some ''free''),
      (Some ''26'', Some ''Ryan'', Some ''Smith'', Some ''M'', Some ''paid'')] \<and>
   2 \<le> length (filter (\<lambda>u. fst u = userId log_free)
                (users_table (where_page [log_free, log_home, log_paid])))"
proof -
  have h: "log_free \<in> set [log_free, log_home, log_paid]"
    "log_paid \<in> set [log_free, log_home, log_paid]"
    "page log_free = Some ''NextSong''" "page log_paid = Some ''NextSong''"
    "userId log_free = userId log_paid" "level log_free \<noteq> level log_paid"
    by (simp_all add: log_free_def log_paid_def)
  from C6_users_row_per_level [OF h] h users_example show ?thesis
    by (simp only: simp_thms)
qed

subsection \<open>The event extractor on the examples\<close>

text \<open>
  Claim C7.  With no log file and no catalog file the extractors are meant to end
  normally, with empty tables.  As written, the event extractor issues the write call of
  an empty users table and raises at the name \<^verbatim>\<open>dayofweek\<close>, so neither the time
  table nor the songplays table is written; the catalog extractor raises at the name
  \<^verbatim>\<open>partitionBy\<close> before any write call.
\<close>

theorem C7_empty_input_raises:
  "process_log_data empty_session ''s3a://udacity-dend/'' ''s3a://sparkify-data-lake/'' [] =
     (Some (NameError ''dayofweek''),
      [\<lparr>path = ''s3a://sparkify-data-lake/users/users.parquet'', mode = None,
        partitionBy = Some [''userId''], table = Users []\<rparr>]) \<and>
   process_song_data empty_session ''s3a://udacity-dend/'' ''s3a://sparkify-data-lake/'' [] =
     (Some (NameError ''partitionBy''), [])"
  by (simp add: process_log_data_raises process_song_data_raises empty_session_def
      users_table_def where_page_def select_users_def distinct_rows_def)

text \<open>
  Claim C4.  The time table is meant to hold, for each distinct date-time, its hour, day,
  week, month, year and weekday.  Line 108 calls \<^verbatim>\<open>dayofweek\<close>, which line 6 does
  not import: on the example session the expression of the time table raises, and the
  only write call of the extractor is that of the users table.
\<close>

theorem C4_time_table_not_built:
  "time_table_expr example_session (where_page [log_free, log_home, log_paid]) =
     Inl (NameError ''dayofweek'') \<and>
   process_log_data example_session ''s3a://udacity-dend/'' ''s3a://sparkify-data-lake/'' [] =
     (Some (NameError ''dayofweek''),
      [\<lparr>path = ''s3a://sparkify-data-lake/users/users.parquet'', mode = None,
        partitionBy = Some [''userId''],
        table = Users [(Some ''26'', Some ''Ryan'', Some ''Smith'', Some ''M'', Some ''free''),
                       (Some ''26'', Some ''Ryan'', Some ''Smith'', Some ''M'', Some ''paid'')]\<rparr>])"
  by (simp add: process_log_data_raises time_table_expr_raises example_session_def
      users_example)

subsection \<open>The derived columns\<close>

lemma mapE_Inr:
  "mapE f xs = Inr ys \<Longrightarrow> ys = map (\<lambda>x. projr (f x)) xs \<and> (\<forall>x \<in> set xs. isl (f x) = False)"
proof (induction xs arbitrary: ys)
  case Nil
  then show ?case by simp
next
  case (Cons x xs)
  then show ?case
    by (cases "f x"; cases "mapE f xs") (auto simp: bindE_def)
qed

lemma with_timestamps_Inr:
  assumes "with_timestamps tz df = Inr df1"
  shows "df1 = map (\<lambda>r. withColumns r (projr (get_timestamp (ts r)))
                          (projr (get_datetime tz (ts r)))) df"
proof -
  let ?f = "\<lambda>r. bindE (get_timestamp (ts r)) (\<lambda>t.
                bindE (get_datetime tz (ts r)) (\<lambda>d. Inr (withColumns r t d)))"
  from assms have m: "mapE ?f df = Inr df1" by (simp add: with_timestamps_def)
  from mapE_Inr [OF m] have e: "df1 = map (\<lambda>x. projr (?f x)) df"
    and ok: "\<forall>x \<in> set df. isl (?f x) = False" by blast+
  have "projr (?f r) = withColumns r (projr (get_timestamp (ts r)))
                          (projr (get_datetime tz (ts r)))" if "r \<in> set df" for r
  proof -
    from ok that have "isl (?f r) = False" by blast
    then show ?thesis
      by (cases "get_timestamp (ts r)"; cases "get_datetime tz (ts r)")
        (simp_all add: bindE_def)
  qed
  with e show ?thesis by simp
qed

lemma page_withColumns: "page (withColumns r t d) = page r"
  by (simp add: withColumns_def)

lemma with_timestamps_page:
  assumes "with_timestamps tz (where_page df) = Inr df1" and "l \<in> set df1"
  shows "page l = Some ''NextSong''"
  using assms(2) unfolding with_timestamps_Inr [OF assms(1)]
  by (auto simp: page_withColumns set_where_page)

lemma with_timestamps_length:
  "with_timestamps tz df = Inr df1 \<Longrightarrow> length df1 = length df"
  by (drule with_timestamps_Inr) simp

lemma time_table_expr_read_logs:
  "time_table_expr (spark\<lparr>read_logs := f\<rparr>) df = time_table_expr spark df"
  by (simp add: time_table_expr_def)

lemma songplays_table_expr_read_logs:
  "songplays_table_expr (spark\<lparr>read_logs := f\<rparr>) df song_df =
     songplays_table_expr spark df song_df"
proof -
  have "id_column (spark\<lparr>read_logs := f\<rparr>) = id_column spark"
    by (rule ext) (simp add: id_column_def split: pyobj.splits)
  then show ?thesis by (simp add: songplays_table_expr_def)
qed

text \<open>
  Claim C2.  A log row whose page is not \<^verbatim>\<open>NextSong\<close> contributes to none of
  the tables made from the log: taking it out of the rows read changes neither the users
  table, nor the rows with their date-times from which the time and songplays tables are
  made (whatever the date functions and identifiers are), nor what the extractor does as
  written; every row of the users table comes from a play row, and so does every row
  that feeds the time and songplays tables.
\<close>

theorem C2_other_pages_contribute_nothing:
  assumes "page r \<noteq> Some ''NextSong''"
  shows "users_table (where_page (xs @ r # ys)) = users_table (where_page (xs @ ys)) \<and>
     bindE (with_timestamps tz (where_page (xs @ r # ys)))
       (\<lambda>df. Inr (time_table hour_f day_f week_f month_f year_f weekday_f df,
                 songplays_table year_f month_f ids df song_df)) =
     bindE (with_timestamps tz (where_page (xs @ ys)))
       (\<lambda>df. Inr (time_table hour_f day_f week_f month_f year_f weekday_f df,
                 songplays_table year_f month_f ids df song_df)) \<and>
     process_log_data (spark\<lparr>read_logs := \<lambda>p. xs @ r # ys\<rparr>) input_data output_data out =
     process_log_data (spark\<lparr>read_logs := \<lambda>p. xs @ ys\<rparr>) input_data output_data out \<and>
     (\<forall>u \<in> set (users_table (where_page df)).
        \<exists>l \<in> set df. page l = Some ''NextSong'' \<and>
          u = (userId l, firstName l, lastName l, gender l, level l)) \<and>
     (\<forall>df1. with_timestamps tz (where_page df) = Inr df1 \<longrightarrow>
        (\<forall>l \<in> set df1. page l = Some ''NextSong''))"
proof (intro conjI)
  note w = where_page_drop [OF assms, of xs ys]
  show "users_table (where_page (xs @ r # ys)) = users_table (where_page (xs @ ys))"
    by (simp only: w)
  show "bindE (with_timestamps tz (where_page (xs @ r # ys)))
       (\<lambda>df. Inr (time_table hour_f day_f week_f month_f year_f weekday_f df,
                 songplays_table year_f month_f ids df song_df)) =
     bindE (with_timestamps tz (where_page (xs @ ys)))
       (\<lambda>df. Inr (time_table hour_f day_f week_f month_f year_f weekday_f df,
                 songplays_table year_f month_f ids df song_df))"
    by (simp only: w)
  show "process_log_data (spark\<lparr>read_logs := \<lambda>p. xs @ r # ys\<rparr>) input_data output_data out =
     process_log_data (spark\<lparr>read_logs := \<lambda>p. xs @ ys\<rparr>) input_data output_data out"
    by (simp add: process_log_data_def w time_table_expr_read_logs
        songplays_table_expr_read_logs Let_def split: sum.splits prod.splits)
  show "\<forall>u \<in> set (users_table (where_page df)).
        \<exists>l \<in> set df. page l = Some ''NextSong'' \<and>
          u = (userId l, firstName l, lastName l, gender l, level l)"
    by (auto simp: set_users_table set_where_page)
  show "\<forall>df1. with_timestamps tz (where_page df) = Inr df1 \<longrightarrow>
        (\<forall>l \<in> set df1. page l = Some ''NextSong'')"
    using with_timestamps_page by blast
qed

theorem C2_other_pages_contribute_nothing_witness:
  "page log_home \<noteq> Some ''NextSong'' \<and>
   users_table (where_page ([log_free] @ log_home # [log_paid])) =
     users_table (where_page ([log_free] @ [log_paid])) \<and>
   process_log_data (example_session\<lparr>read_logs := \<lambda>p. [log_free] @ log_home # [log_paid]\<rparr>)
       ''s3a://udacity-dend/'' ''s3a://sparkify-data-lake/'' [] =
     process_log_data (example_session\<lparr>read_logs := \<lambda>p. [log_free] @ [log_paid]\<rparr>)
       ''s3a://udacity-dend/'' ''s3a://sparkify-data-lake/'' []"
proof -
  have h: "page log_home \<noteq> Some ''NextSong''"
    by (simp add: log_home_def log_free_def)
  from C2_other_pages_contribute_nothing [OF h, of "[log_free]" "[log_paid]"] h
  show ?thesis by blast
qed

subsection \<open>Evaluating the examples\<close>

lemma str_nat_numeral:
  "str_nat (numeral k) =
     (if numeral k < (10::nat) then [digit (numeral k)]
      else str_nat (numeral k div 10) @ [digit (numeral k)])"
  by (rule str_nat.simps)

lemma str_nat_0: "str_nat 0 = ''0''"
  by (simp add: str_nat.simps [of 0] digit_def)

lemma str_nat_1: "str_nat (Suc 0) = ''1''"
  by (subst str_nat.simps) (simp add: digit_def)

lemmas str_simps = str_nat_numeral str_nat_0 str_nat_1 digit_def str_int_def zfill_def

lemma get_timestamp_example: "get_timestamp (Some 1541440006796) = Inr ''1541440006''"
  by (simp add: get_timestamp_def str_simps)

lemma fromtimestamp_example:
  "fromtimestamp utc 1541440006796 =
     Inr \<lparr>dt_year = 2018, dt_month = 11, dt_day = 5, dt_hour = 17, dt_minute = 46,
          dt_second = 46, dt_microsecond = 796000\<rparr>"
  by code_simp

lemma with_timestamps_example:
  "with_timestamps utc (where_page [log_free]) = Inr [log_free_dt]"
  by (simp add: with_timestamps_def where_page_def log_free_def log_free_dt_def bindE_def
      get_timestamp_example get_datetime_def fromtimestamp_example)

subsection \<open>The join as written\<close>

lemma join_condition_raises:
  "join_condition None None = Inl (AnalysisException ''df.artist'')"
  by (simp add: join_condition_def resolve_column_def lookup_col bindE_Inr bindE_Inl)

text \<open>
  Claim C3.  The songplays table is meant to be the inner join of the play rows with the
  catalog rows on the artist name, unmatched play rows being dropped without an error.
  As written no songplays table is built for any input: the extractor raises at line 108
  before it reaches the join; the condition of the join on line 119 names its columns
  \<^verbatim>\<open>df.artist\<close> and \<^verbatim>\<open>song_df.artist_name\<close> while neither dataframe has an
  alias, so the join cannot resolve them; and line 131 calls a name that is not imported.
  On the example session the only write call is that of the users table.
\<close>

theorem C3_songplays_table_not_built:
  "join_condition None None = Inl (AnalysisException ''df.artist'') \<and>
   songplays_table_expr example_session [log_free_dt] [song_clocks, song_yellow, song_clocks] =
     Inl (NameError ''monotonically_increasing_id'') \<and>
   process_log_data example_session ''s3a://udacity-dend/'' ''s3a://sparkify-data-lake/'' [] =
     (Some (NameError ''dayofweek''),
      [\<lparr>path = ''s3a://sparkify-data-lake/users/users.parquet'', mode = None,
        partitionBy = Some [''userId''],
        table = Users [(Some ''26'', Some ''Ryan'', Some ''Smith'', Some ''M'', Some ''free''),
                       (Some ''26'', Some ''Ryan'', Some ''Smith'', Some ''M'', Some ''paid'')]\<rparr>])"
  by (simp add: join_condition_raises songplays_table_expr_raises process_log_data_raises
      example_session_def users_example)

subsection \<open>The derived date-time\<close>

lemma fromtimestamp_pst:
  "fromtimestamp pst 1541440006796 =
     Inr \<lparr>dt_year = 2018, dt_month = 11, dt_day = 5, dt_hour = 9, dt_minute = 46,
          dt_second = 46, dt_microsecond = 796000\<rparr>"
  by code_simp

lemma fromtimestamp_cong:
  "tz1 (x div 1000) = tz2 (x div 1000) \<Longrightarrow> fromtimestamp tz1 x = fromtimestamp tz2 x"
  by (simp add: fromtimestamp_def)

lemma str_datetime_example:
  "str_datetime \<lparr>dt_year = 2018, dt_month = 11, dt_day = 5, dt_hour = 17, dt_minute = 46,
      dt_second = 46, dt_microsecond = 796000\<rparr> = ''2018-11-05 17:46:46.796000''"
  by (simp add: str_datetime_def str_simps)

lemma weekofyear_example:
  "weekofyear \<lparr>dt_year = 2018, dt_month = 11, dt_day = 5, dt_hour = 17, dt_minute = 46,
      dt_second = 46, dt_microsecond = 796000\<rparr> = 45"
  by code_simp

lemma dayofweek_example:
  "dayofweek \<lparr>dt_year = 2018, dt_month = 11, dt_day = 5, dt_hour = 17, dt_minute = 46,
      dt_second = 46, dt_microsecond = 796000\<rparr> = 2"
  by code_simp

lemma days_from_civil_example: "days_from_civil 2018 11 5 = 17840"
  by code_simp

lemma civil_from_days_example: "civil_from_days 17840 = (2018, 11, 5)"
  by code_simp

text \<open>
  Claim C5, as stated, fails: \<^verbatim>\<open>datetime.fromtimestamp\<close> gives the local time of
  the process that runs it, so the date-time is not a function of \<^verbatim>\<open>ts\<close> alone.
  The value 1541440006796 gives 17:46:46 on 2018-11-05 where the local time is UTC, and
  09:46:46 where it is eight hours behind.
\<close>

theorem C5_datetime_depends_on_time_zone:
  "get_datetime utc (Some 1541440006796) =
     Inr \<lparr>dt_year = 2018, dt_month = 11, dt_day = 5, dt_hour = 17, dt_minute = 46,
          dt_second = 46, dt_microsecond = 796000\<rparr> \<and>
   get_datetime pst (Some 1541440006796) =
     Inr \<lparr>dt_year = 2018, dt_month = 11, dt_day = 5, dt_hour = 9, dt_minute = 46,
          dt_second = 46, dt_microsecond = 796000\<rparr> \<and>
   get_datetime utc (Some 1541440006796) \<noteq> get_datetime pst (Some 1541440006796)"
  by (simp add: get_datetime_def fromtimestamp_example fromtimestamp_pst)

text \<open>
  Claim C5, amended.  The date-time is a function of \<^verbatim>\<open>ts\<close> and of the offset of
  the local time at that instant: the milliseconds are divided by 1000 and the quotient
  is converted to a local calendar date-time.  Where the local time is UTC, the value
  1541440006796 gives \<^verbatim>\<open>2018-11-05 17:46:46.796000\<close>, with hour 17, day 5, week 45,
  month 11 and year 2018 from the date functions the script imports; the engine's
  \<^verbatim>\<open>dayofweek\<close> is 2 there (Monday), day 17840 since 1970-01-01 is that date, and it
  is a Monday.
\<close>

theorem C5_datetime_of_ts_and_time_zone:
  "(tz1 (x div 1000) = tz2 (x div 1000) \<longrightarrow>
      get_datetime tz1 (Some x) = get_datetime tz2 (Some x)) \<and>
   get_datetime utc (Some 1541440006796) =
     Inr \<lparr>dt_year = 2018, dt_month = 11, dt_day = 5, dt_hour = 17, dt_minute = 46,
          dt_second = 46, dt_microsecond = 796000\<rparr> \<and>
   str_datetime \<lparr>dt_year = 2018, dt_month = 11, dt_day = 5, dt_hour = 17, dt_minute = 46,
          dt_second = 46, dt_microsecond = 796000\<rparr> = ''2018-11-05 17:46:46.796000'' \<and>
   time_columns dt_hour dt_day weekofyear dt_month dt_year dayofweek
       \<lparr>dt_year = 2018, dt_month = 11, dt_day = 5, dt_hour = 17, dt_minute = 46,
        dt_second = 46, dt_microsecond = 796000\<rparr> =
     \<lparr>t_datetime = \<lparr>dt_year = 2018, dt_month = 11, dt_day = 5, dt_hour = 17,
                     dt_minute = 46, dt_second = 46, dt_microsecond = 796000\<rparr>,
      t_start_time = \<lparr>dt_year = 2018, dt_month = 11, dt_day = 5, dt_hour = 17,
                       dt_minute = 46, dt_second = 46, dt_microsecond = 796000\<rparr>,
      t_hour = 17, t_day = 5, t_week = 45, t_month = 11, t_year = 2018, t_weekday = 2\<rparr> \<and>
   days_from_civil 2018 11 5 = 17840 \<and> civil_from_days 17840 = (2018, 11, 5) \<and>
   (17840 + 3) mod 7 + 1 = (1::int)"
proof (intro conjI)
  show "tz1 (x div 1000) = tz2 (x div 1000) \<longrightarrow>
      get_datetime tz1 (Some x) = get_datetime tz2 (Some x)"
  proof
    assume "tz1 (x div 1000) = tz2 (x div 1000)"
    then have "fromtimestamp tz1 x = fromtimestamp tz2 x"
      by (rule fromtimestamp_cong)
    then show "get_datetime tz1 (Some x) = get_datetime tz2 (Some x)"
      by (simp add: get_datetime_def)
  qed
  show "get_datetime utc (Some 1541440006796) =
     Inr \<lparr>dt_year = 2018, dt_month = 11, dt_day = 5, dt_hour = 17, dt_minute = 46,
          dt_second = 46, dt_microsecond = 796000\<rparr>"
    by (simp add: get_datetime_def fromtimestamp_example)
  show "str_datetime \<lparr>dt_year = 2018, dt_month = 11, dt_day = 5, dt_hour = 17, dt_minute = 46,
          dt_second = 46, dt_microsecond = 796000\<rparr> = ''2018-11-05 17:46:46.796000''"
    by (rule str_datetime_example)
  show "time_columns dt_hour dt_day weekofyear dt_month dt_year dayofweek
       \<lparr>dt_year = 2018, dt_month = 11, dt_day = 5, dt_hour = 17, dt_minute = 46,
        dt_second = 46, dt_microsecond = 796000\<rparr> =
     \<lparr>t_datetime = \<lparr>dt_year = 2018, dt_month = 11, dt_day = 5, dt_hour = 17,
                     dt_minute = 46, dt_second = 46, dt_microsecond = 796000\<rparr>,
      t_start_time = \<lparr>dt_year = 2018, dt_month = 11, dt_day = 5, dt_hour = 17,
                       dt_minute = 46, dt_second = 46, dt_microsecond = 796000\<rparr>,
      t_hour = 17, t_day = 5, t_week = 45, t_month = 11, t_year = 2018, t_weekday = 2\<rparr>"
    by (simp add: time_columns_def weekofyear_example dayofweek_example)
  show "days_from_civil 2018 11 5 = 17840" by (rule days_from_civil_example)
  show "civil_from_days 17840 = (2018, 11, 5)" by (rule civil_from_days_example)
  show "(17840 + 3) mod 7 + 1 = (1::int)" by simp
qed

theorem C5_datetime_of_ts_and_time_zone_witness:
  "utc (1541440006796 div 1000) = london (1541440006796 div 1000) \<and>
   get_datetime utc (Some 1541440006796) = get_datetime london (Some 1541440006796) \<and>
   str_datetime \<lparr>dt_year = 2018, dt_month = 11, dt_day = 5, dt_hour = 17, dt_minute = 46,
          dt_second = 46, dt_microsecond = 796000\<rparr> = ''2018-11-05 17:46:46.796000''"
proof -
  have h: "utc (1541440006796 div 1000) = london (1541440006796 div 1000)"
    by (simp add: utc_def london_def)
  from C5_datetime_of_ts_and_time_zone [of utc 1541440006796 london] h
  show ?thesis by blast
qed

subsection \<open>The rows of the time table\<close>

lemma set_time_table:
  "set (time_table hour_f day_f week_f month_f year_f weekday_f df) =
     (\<lambda>r. time_columns hour_f day_f week_f month_f year_f weekday_f (datetime r)) ` set df"
  by (simp add: time_table_def dropDuplicates_def set_distinct_rows)

lemma distinct_time_table:
  "distinct (time_table hour_f day_f week_f month_f year_f weekday_f df)"
  by (simp add: time_table_def dropDuplicates_def distinct_distinct_rows)

text \<open>
  Whatever the six date functions are, the time table has one row for each distinct
  date-time of the rows it is made from.
\<close>

lemma time_table_one_row_per_datetime:
  "distinct (map t_datetime (time_table hour_f day_f week_f month_f year_f weekday_f df)) \<and>
   set (map t_datetime (time_table hour_f day_f week_f month_f year_f weekday_f df)) =
     datetime ` set df"
proof
  let ?T = "time_table hour_f day_f week_f month_f year_f weekday_f df"
  have "inj_on t_datetime (set ?T)"
    by (rule inj_onI) (auto simp: set_time_table time_columns_def)
  with distinct_time_table [of hour_f day_f week_f month_f year_f weekday_f df]
  show "distinct (map t_datetime ?T)"
    by (simp add: distinct_map)
  show "set (map t_datetime ?T) = datetime ` set df"
    by (simp add: set_time_table image_image time_columns_def)
qed

subsection \<open>Two runs of the driver\<close>

text \<open>
  Claim C9.  Two runs on the same files are meant to write the five tables with the same
  rows.  As written a run writes no table at all: \<^verbatim>\<open>main\<close> ends in the catalog
  extractor at the name \<^verbatim>\<open>partitionBy\<close> before its first write call, in the first
  run as in the second (which reads the same rows in another order), and the script
  itself stops when it is compiled.
\<close>

theorem C9_runs_write_no_table:
  "main example_session [] = (Some (NameError ''partitionBy''), []) \<and>
   main example_session_rerun [] = (Some (NameError ''partitionBy''), []) \<and>
   run_script [] example_session = (Some (IndentationError 134), []) \<and>
   run_script [] example_session_rerun = (Some (IndentationError 134), [])"
  by (simp only: main_raises run_script_raises simp_thms)

end
